theory Spec2Isabelle
  imports Complex_Main "HOL-Library.AList"
begin

section \<open>JavaScript numbers\<close>

text \<open>
  A JavaScript number is an IEEE-754 double: a finite number \<open>Num x\<close>, where \<open>x\<close> is the real
  number that the double stands for, \<open>Infinity\<close>, \<open>-Infinity\<close> or \<open>NaN\<close>. Every arithmetic
  operation returns the exact result rounded to the nearest double, a tie to the one with the
  even significand, and \<open>Infinity\<close> or \<open>-Infinity\<close> when the rounded result is beyond the
  largest double. Zero has no sign here: \<open>-0\<close> and \<open>0\<close> are equal as numbers, only a division
  by them differs, and a division by zero takes the divisor as \<open>+0\<close>.
\<close>

datatype jsnum = Num real | PosInf | NegInf | NaN

text \<open>The integer nearest to a real number, the even one of two that are equally near.\<close>

definition round_even :: "real \<Rightarrow> int" where
  "round_even r =
     (let f = \<lfloor>r\<rfloor>; d = r - of_int f
      in if d < 1 / 2 then f else if 1 / 2 < d then f + 1 else if even f then f else f + 1)"

text \<open>
  The exponent of a double for a number of magnitude \<open>a\<close>: the \<open>k\<close> from \<open>-1022\<close> on with
  \<open>a < 2 powi (k + 1)\<close>, found by counting up; a subnormal number has the exponent \<open>-1022\<close>.
  A double is a multiple of \<open>2 powi (k - 52)\<close>, the \<open>quantum\<close>, by an integer below
  \<open>2 ^ 53\<close> in magnitude.
\<close>

fun expo_from :: "real \<Rightarrow> int \<Rightarrow> nat \<Rightarrow> int" where
  "expo_from a k 0 = k"
| "expo_from a k (Suc n) = (if a < 2 powi (k + 1) then k else expo_from a (k + 1) n)"

definition expo :: "real \<Rightarrow> int" where
  "expo x = expo_from \<bar>x\<bar> (- 1022) 2046"

definition quantum :: "real \<Rightarrow> real" where
  "quantum x = 2 powi (expo x - 52)"

text \<open>\<open>rnd x\<close> is the multiple of the quantum nearest to \<open>x\<close>, and \<open>fl x\<close> the number of
  JavaScript for it: from \<open>2 powi 1024\<close> on the rounded result has overflowed.\<close>

definition rnd :: "real \<Rightarrow> real" where
  "rnd x = of_int (round_even (x / quantum x)) * quantum x"

definition fl :: "real \<Rightarrow> jsnum" where
  "fl x = (let y = rnd x
           in if 2 powi 1024 \<le> y then PosInf else if y \<le> - (2 powi 1024) then NegInf else Num y)"

fun js_neg :: "jsnum \<Rightarrow> jsnum" where
  "js_neg (Num x) = Num (- x)"
| "js_neg PosInf = NegInf"
| "js_neg NegInf = PosInf"
| "js_neg NaN = NaN"

fun js_add :: "jsnum \<Rightarrow> jsnum \<Rightarrow> jsnum" where
  "js_add NaN b = NaN"
| "js_add a NaN = NaN"
| "js_add (Num x) (Num y) = fl (x + y)"
| "js_add PosInf NegInf = NaN"
| "js_add NegInf PosInf = NaN"
| "js_add PosInf b = PosInf"
| "js_add NegInf b = NegInf"
| "js_add (Num x) b = b"

definition js_sub :: "jsnum \<Rightarrow> jsnum \<Rightarrow> jsnum" where
  "js_sub a b = js_add a (js_neg b)"

text \<open>The sign of a number that is not \<open>NaN\<close>: \<open>1\<close>, \<open>0\<close> or \<open>-1\<close>.\<close>

fun js_sign :: "jsnum \<Rightarrow> int" where
  "js_sign (Num x) = (if x = 0 then 0 else if 0 < x then 1 else - 1)"
| "js_sign PosInf = 1"
| "js_sign NegInf = - 1"
| "js_sign NaN = 0"

definition inf_of_sign :: "int \<Rightarrow> jsnum" where
  "inf_of_sign s = (if s = 0 then NaN else if 0 < s then PosInf else NegInf)"

fun js_mul :: "jsnum \<Rightarrow> jsnum \<Rightarrow> jsnum" where
  "js_mul NaN b = NaN"
| "js_mul a NaN = NaN"
| "js_mul (Num x) (Num y) = fl (x * y)"
| "js_mul a b = inf_of_sign (js_sign a * js_sign b)"

fun js_div :: "jsnum \<Rightarrow> jsnum \<Rightarrow> jsnum" where
  "js_div NaN b = NaN"
| "js_div a NaN = NaN"
| "js_div (Num x) (Num y) = (if y = 0 then inf_of_sign (js_sign (Num x)) else fl (x / y))"
| "js_div (Num x) b = Num 0"
| "js_div a (Num y) = inf_of_sign (js_sign a * (if y < 0 then - 1 else 1))"
| "js_div a b = NaN"

text \<open>\<open>Math.min(a, b)\<close> and \<open>Math.max(a, b)\<close>: \<open>NaN\<close> as soon as one argument is.\<close>

fun js_min2 :: "jsnum \<Rightarrow> jsnum \<Rightarrow> jsnum" where
  "js_min2 NaN b = NaN"
| "js_min2 a NaN = NaN"
| "js_min2 NegInf b = NegInf"
| "js_min2 a NegInf = NegInf"
| "js_min2 PosInf b = b"
| "js_min2 a PosInf = a"
| "js_min2 (Num x) (Num y) = Num (min x y)"

fun js_max2 :: "jsnum \<Rightarrow> jsnum \<Rightarrow> jsnum" where
  "js_max2 NaN b = NaN"
| "js_max2 a NaN = NaN"
| "js_max2 PosInf b = PosInf"
| "js_max2 a PosInf = PosInf"
| "js_max2 NegInf b = b"
| "js_max2 a NegInf = a"
| "js_max2 (Num x) (Num y) = Num (max x y)"

text \<open>\<open>Math.min(...values)\<close> starts from \<open>Infinity\<close>, \<open>Math.max(...values)\<close> from
  \<open>-Infinity\<close>.\<close>

definition Math_min :: "jsnum list \<Rightarrow> jsnum" where
  "Math_min vs = foldl js_min2 PosInf vs"

definition Math_max :: "jsnum list \<Rightarrow> jsnum" where
  "Math_max vs = foldl js_max2 NegInf vs"

text \<open>\<open>x || 1\<close> on a number: \<open>0\<close> and \<open>NaN\<close> are falsy.\<close>

definition or_1 :: "jsnum \<Rightarrow> jsnum" where
  "or_1 x = (if x = Num 0 \<or> x = NaN then Num 1 else x)"

text \<open>\<open>a > b\<close> on numbers: false as soon as one side is \<open>NaN\<close>.\<close>

fun js_gt :: "jsnum \<Rightarrow> jsnum \<Rightarrow> bool" where
  "js_gt NaN b = False"
| "js_gt a NaN = False"
| "js_gt (Num x) (Num y) = (y < x)"
| "js_gt PosInf b = (b \<noteq> PosInf)"
| "js_gt a PosInf = False"
| "js_gt a NegInf = (a \<noteq> NegInf)"
| "js_gt NegInf b = False"


section \<open>The data processor: normalization\<close>

text \<open>
  \<open>DataProcessor\<close> (src/utils/dataProcessor.js) holds the map \<open>normalizers\<close> from a key to
  the object \<open>{min, max, range}\<close>, and the map \<open>csvData\<close> of the uploaded series.
  A candle is \<open>{date, timestamp, open, high, low, close, volume}\<close>; its numbers are finite.
\<close>

record params =
  min_p :: jsnum
  max_p :: jsnum
  range_p :: jsnum

record candle =
  date_c :: string
  timestamp_c :: int
  open_c :: real
  high_c :: real
  low_c :: real
  close_c :: real
  volume_c :: real

record DataProcessor =
  normalizers :: "string \<rightharpoonup> params"
  csvData :: "string \<rightharpoonup> candle list"

text \<open>
  An element of the array given to \<open>normalize\<close>: a number, or an object with numeric
  fields. \<open>field_num d key\<close> is \<open>d[key]\<close> as a number: a number has no such property and an
  object may lack it, the read is \<open>undefined\<close> then, which every use below coerces to
  \<open>NaN\<close>. \<open>to_number d\<close> is the element itself as a number (an object is \<open>NaN\<close>).
\<close>

datatype item = NumItem real | ObjItem "(string \<times> real) list"

fun field_num :: "item \<Rightarrow> string \<Rightarrow> jsnum" where
  "field_num (NumItem x) key = NaN"
| "field_num (ObjItem fs) key = (case map_of fs key of None \<Rightarrow> NaN | Some v \<Rightarrow> Num v)"

fun to_number :: "item \<Rightarrow> jsnum" where
  "to_number (NumItem x) = Num x"
| "to_number (ObjItem fs) = NaN"

text \<open>The parameter \<open>key = null\<close>: \<open>None\<close> is \<open>null\<close>; \<open>null\<close> and the empty string are
  falsy.\<close>

fun truthy_key :: "string option \<Rightarrow> string option" where
  "truthy_key None = None"
| "truthy_key (Some k) = (if k = [] then None else Some k)"

definition normalizeKey :: "string option \<Rightarrow> string" where
  "normalizeKey key = (case truthy_key key of None \<Rightarrow> ''default'' | Some k \<Rightarrow> k)"


text \<open>\<open>denormalize\<close> returns its argument (after a warning) when the key has no entry.\<close>

definition denormalize :: "jsnum list \<Rightarrow> string option \<Rightarrow> DataProcessor \<Rightarrow> jsnum list" where
  "denormalize normalizedValues key dp =
     (case normalizers dp (normalizeKey key) of
        None \<Rightarrow> normalizedValues
      | Some ps \<Rightarrow> map (\<lambda>v. js_add (js_mul v (range_p ps)) (min_p ps)) normalizedValues)"


text \<open>
  For the statements below: the array \<open>values\<close> that \<open>normalize\<close> works on, the parameters
  computed over an array, a fresh processor, and the comparison \<open>Math.abs(a - b) <= eps\<close> of two
  numbers (false when one of them is not finite).
\<close>

definition values_of :: "item list \<Rightarrow> string option \<Rightarrow> jsnum list" where
  "values_of data key =
     (case truthy_key key of
        Some k \<Rightarrow> map (\<lambda>d. field_num d k) data
      | None \<Rightarrow> map to_number data)"


definition new_DataProcessor :: DataProcessor where
  "new_DataProcessor = \<lparr>normalizers = Map.empty, csvData = Map.empty\<rparr>"

fun within_tol :: "real \<Rightarrow> jsnum \<Rightarrow> jsnum \<Rightarrow> bool" where
  "within_tol eps (Num x) (Num y) = (\<bar>x - y\<bar> \<le> eps)"
| "within_tol eps a b = False"

section \<open>The data processor: training windows\<close>

datatype error =
    TypeError
  | TargetDataNotFound string
  | ModelNotTrained
  | FitFailure

definition extractFeatures :: "candle list \<Rightarrow> jsnum list list" where
  "extractFeatures data =
     map (\<lambda>item. [Num (open_c item), Num (high_c item), Num (low_c item), Num (close_c item),
                     js_div (Num (volume_c item)) (Num 1000000)]) data"

text \<open>The template literal \<open>`${symbol}_dim${dim}`\<close>: the index in decimal.\<close>

definition digit :: "nat \<Rightarrow> char" where
  "digit n = ''0123456789'' ! n"

function string_of_nat :: "nat \<Rightarrow> string" where
  "string_of_nat n = (if n < 10 then [digit n] else string_of_nat (n div 10) @ [digit (n mod 10)])"
  by pat_completeness auto
termination
  by (relation "measure (\<lambda>n. n)") auto

definition dimKey :: "string \<Rightarrow> nat \<Rightarrow> string" where
  "dimKey symbol d = symbol @ ''_dim'' @ string_of_nat d"

text \<open>\<open>f[dim]\<close> inside \<open>Math.min\<close> and \<open>Math.max\<close>: out of range it is \<open>undefined\<close>, that is
  \<open>NaN\<close> there.\<close>

definition nth_num :: "jsnum list \<Rightarrow> nat \<Rightarrow> jsnum" where
  "nth_num f d = (if d < length f then f ! d else NaN)"

text \<open>
  The body of the callback of \<open>features[i].map((val, dim) => ...)\<close> up to
  \<open>const params = this.normalizers.get(key)\<close>: the parameters of a key are computed over the
  whole column and stored only when the key has no entry (\<open>!this.normalizers.has(key)\<close>); an
  entry already there is used as it is.
\<close>

definition params_of_key ::
  "(string \<rightharpoonup> params) \<Rightarrow> string \<Rightarrow> jsnum list list \<Rightarrow> nat \<Rightarrow> params \<times> (string \<rightharpoonup> params)" where
  "params_of_key ns key features d =
     (case ns key of
        None \<Rightarrow>
          (let allValues = map (\<lambda>f. nth_num f d) features;
               mn = Math_min allValues;
               mx = Math_max allValues;
               ps = \<lparr>min_p = mn, max_p = mx, range_p = or_1 (js_sub mx mn)\<rparr>
           in (ps, ns(key \<mapsto> ps)))
      | Some ps \<Rightarrow> (ps, ns))"

text \<open>The callback run over one row, from index \<open>d\<close> (the source's \<open>dim\<close>) on, threading
  the map \<open>normalizers\<close>.\<close>

fun normalizedRow ::
  "string \<Rightarrow> jsnum list list \<Rightarrow> nat \<Rightarrow> jsnum list \<Rightarrow> (string \<rightharpoonup> params)
     \<Rightarrow> jsnum list \<times> (string \<rightharpoonup> params)" where
  "normalizedRow symbol features d [] ns = ([], ns)"
| "normalizedRow symbol features d (val # vals) ns =
     (let (ps, ns1) = params_of_key ns (dimKey symbol d) features d;
          (rest, ns2) = normalizedRow symbol features (Suc d) vals ns1
      in (js_div (js_sub val (min_p ps)) (range_p ps) # rest, ns2))"

text \<open>The loop \<open>for (let i = 0; i < features.length; i++)\<close> over the rows.\<close>

fun normalizedFeatures ::
  "string \<Rightarrow> jsnum list list \<Rightarrow> jsnum list list \<Rightarrow> (string \<rightharpoonup> params)
     \<Rightarrow> jsnum list list \<times> (string \<rightharpoonup> params)" where
  "normalizedFeatures symbol features [] ns = ([], ns)"
| "normalizedFeatures symbol features (row # rows) ns =
     (let (r, ns1) = normalizedRow symbol features 0 row ns;
          (rs, ns2) = normalizedFeatures symbol features rows ns1
      in (r # rs, ns2))"

text \<open>
  \<open>multiSourceData\<close> is an object from a symbol to its series: an association list in the
  order of \<open>Object.keys\<close>, with distinct keys. \<open>Math.min(...lengths)\<close> of no length is
  \<open>Infinity\<close>, here \<open>None\<close>; \<open>data.slice(0, minLength)\<close> keeps the first \<open>minLength\<close>
  candles.
\<close>

type_synonym multiSource = "(string \<times> candle list) list"

fun minLength_of :: "nat list \<Rightarrow> nat option" where
  "minLength_of [] = None"
| "minLength_of (l # ls) = Some (foldl min l ls)"

fun slice0 :: "nat option \<Rightarrow> 'a list \<Rightarrow> 'a list" where
  "slice0 None xs = xs"
| "slice0 (Some m) xs = take m xs"

text \<open>
  \<open>sources.forEach(symbol => ...)\<close>: each source is cut to \<open>minLength\<close>, its features are
  normalized, and the rows are stored in the object \<open>normalizedSources\<close>, of which only single
  symbols are read: a map.
\<close>

fun normalize_all ::
  "nat option \<Rightarrow> multiSource \<Rightarrow> (string \<rightharpoonup> jsnum list list) \<Rightarrow> (string \<rightharpoonup> params)
     \<Rightarrow> (string \<rightharpoonup> jsnum list list) \<times> (string \<rightharpoonup> params)" where
  "normalize_all minLength [] normalizedSources ns = (normalizedSources, ns)"
| "normalize_all minLength ((symbol, series) # rest) normalizedSources ns =
     (let data = slice0 minLength series;
          features = extractFeatures data;
          (nf, ns1) = normalizedFeatures symbol features features ns
      in normalize_all minLength rest (normalizedSources(symbol \<mapsto> nf)) ns1)"

text \<open>
  Errors are values. \<open>mapE\<close> runs a loop body over the indices of a \<open>for\<close> loop and stops at
  the first exception.
\<close>

fun mapE :: "('a \<Rightarrow> error + 'b) \<Rightarrow> 'a list \<Rightarrow> error + 'b list" where
  "mapE f [] = Inr []"
| "mapE f (x # xs) =
     (case f x of
        Inl e \<Rightarrow> Inl e
      | Inr y \<Rightarrow> (case mapE f xs of Inl e \<Rightarrow> Inl e | Inr ys \<Rightarrow> Inr (y # ys)))"

text \<open>
  \<open>timeStep.push(...normalizedSources[symbol][i + t])\<close> over the sources: a row that does not
  exist is \<open>undefined\<close>, and spreading it throws a TypeError.
\<close>

fun timeStep :: "(string \<rightharpoonup> jsnum list list) \<Rightarrow> string list \<Rightarrow> nat \<Rightarrow> error + jsnum list" where
  "timeStep normalizedSources [] j = Inr []"
| "timeStep normalizedSources (symbol # rest) j =
     (case normalizedSources symbol of
        None \<Rightarrow> Inl TypeError
      | Some rows \<Rightarrow>
          if j < length rows
          then (case timeStep normalizedSources rest j of
                  Inl e \<Rightarrow> Inl e
                | Inr r \<Rightarrow> Inr (rows ! j @ r))
          else Inl TypeError)"

definition inputSequence ::
  "(string \<rightharpoonup> jsnum list list) \<Rightarrow> string list \<Rightarrow> int \<Rightarrow> nat \<Rightarrow> error + jsnum list list" where
  "inputSequence normalizedSources sources lookback i =
     mapE (\<lambda>t. timeStep normalizedSources sources (i + t)) [0..<nat lookback]"

text \<open>
  \<open>normalizedSources[targetSymbol][i + lookback + t].slice(0, 4)\<close>: when the target is not a
  source, or the index is out of range, the read is of \<open>undefined\<close> and throws a TypeError
  (for a target that names a property which every object inherits, the TypeError comes one
  read later, from \<open>slice\<close>).
\<close>

definition targetFeatures :: "(string \<rightharpoonup> jsnum list list) \<Rightarrow> string \<Rightarrow> int \<Rightarrow> error + jsnum list" where
  "targetFeatures normalizedSources targetSymbol j =
     (case normalizedSources targetSymbol of
        None \<Rightarrow> Inl TypeError
      | Some rows \<Rightarrow>
          if 0 \<le> j \<and> nat j < length rows then Inr (take 4 (rows ! nat j)) else Inl TypeError)"

definition targetSequence ::
  "(string \<rightharpoonup> jsnum list list) \<Rightarrow> string \<Rightarrow> int \<Rightarrow> int \<Rightarrow> nat \<Rightarrow> error + jsnum list list" where
  "targetSequence normalizedSources targetSymbol lookback forecast i =
     mapE (\<lambda>t. targetFeatures normalizedSources targetSymbol (int i + lookback + int t))
       [0..<nat forecast]"

text \<open>
  The loop \<open>for (let i = 0; i < totalSamples; i++)\<close>. \<open>totalSamples\<close> is
  \<open>minLength - lookback - forecast\<close>, \<open>Infinity\<close> (here \<open>None\<close>) when there is no source; the
  loop does not end then unless an iteration throws, and not returning is the value \<open>None\<close>.
\<close>

fun below_total :: "nat \<Rightarrow> int option \<Rightarrow> bool" where
  "below_total i None = True"
| "below_total i (Some n) = (int i < n)"

partial_function (option) samples_loop ::
  "(string \<rightharpoonup> jsnum list list) \<Rightarrow> string list \<Rightarrow> string \<Rightarrow> int \<Rightarrow> int \<Rightarrow> int option \<Rightarrow> nat
     \<Rightarrow> jsnum list list list \<Rightarrow> jsnum list list list
     \<Rightarrow> (error + jsnum list list list \<times> jsnum list list list) option" where
  "samples_loop normalizedSources sources targetSymbol lookback forecast totalSamples i X Y =
     (if below_total i totalSamples then
        (case inputSequence normalizedSources sources lookback i of
           Inl e \<Rightarrow> Some (Inl e)
         | Inr x \<Rightarrow>
             (case targetSequence normalizedSources targetSymbol lookback forecast i of
                Inl e \<Rightarrow> Some (Inl e)
              | Inr y \<Rightarrow>
                  samples_loop normalizedSources sources targetSymbol lookback forecast totalSamples
                    (Suc i) (X @ [x]) (Y @ [y])))
      else Some (Inr (X, Y)))"

declare samples_loop.simps [code]

record prep_result =
  X_r :: "jsnum list list list"
  Y_r :: "jsnum list list list"
  sources_r :: "string list"
  featureCount_r :: nat
  normalizers_r :: "string \<rightharpoonup> params"

text \<open>
  \<open>prepareTrainingData(multiSourceData, targetSymbol, lookback, forecast)\<close>. The field
  \<open>normalizers\<close> of the result is the processor's own map, as the call leaves it.
\<close>

definition prepareTrainingData ::
  "DataProcessor \<Rightarrow> multiSource \<Rightarrow> string \<Rightarrow> int \<Rightarrow> int \<Rightarrow> (error + prep_result) option" where
  "prepareTrainingData dp multiSourceData targetSymbol lookback forecast =
     (let sources = map fst multiSourceData;
          minLength = minLength_of (map (\<lambda>d. length d) (map snd multiSourceData));
          (normalizedSources, ns) = normalize_all minLength multiSourceData Map.empty (normalizers dp);
          totalSamples = map_option (\<lambda>m. int m - lookback - forecast) minLength
      in (case samples_loop normalizedSources sources targetSymbol lookback forecast totalSamples 0 [] [] of
            None \<Rightarrow> None
          | Some (Inl e) \<Rightarrow> Some (Inl e)
          | Some (Inr (X, Y)) \<Rightarrow>
              Some (Inr \<lparr>X_r = X, Y_r = Y, sources_r = sources,
                         featureCount_r = length sources * 5, normalizers_r = ns\<rparr>)))"

text \<open>
  \<open>prepareTrainingDataFromCSV(targetSymbol, relatedSymbols, lookback, forecast)\<close>:
  \<open>toUpperCase\<close> is a parameter. The assignment \<open>multiSourceData[symbol] = data\<close> keeps the
  place of a key that is already there and appends a new one.
\<close>

definition prepareTrainingDataFromCSV ::
  "(string \<Rightarrow> string) \<Rightarrow> DataProcessor \<Rightarrow> string \<Rightarrow> string list \<Rightarrow> int \<Rightarrow> int
     \<Rightarrow> (error + prep_result) option" where
  "prepareTrainingDataFromCSV toUpperCase dp targetSymbol relatedSymbols lookback forecast =
     (case csvData dp (toUpperCase targetSymbol) of
        None \<Rightarrow> Some (Inl (TargetDataNotFound targetSymbol))
      | Some targetData \<Rightarrow>
          (let multiSourceData =
                 foldl (\<lambda>m symbol. case csvData dp (toUpperCase symbol) of
                                      Some data \<Rightarrow> AList.update symbol data m
                                    | None \<Rightarrow> m)
                   [(targetSymbol, targetData)] relatedSymbols
           in prepareTrainingData dp multiSourceData targetSymbol lookback forecast))"

text \<open>
  For the statements about \<open>prepareTrainingData\<close>: the rows stored for a source (as many as
  \<open>minLength\<close>, each of five numbers), the result that a call returns and the exception that
  it throws, if any, an example candle and three sources of \<open>n\<close> candles each.
\<close>

definition rows_ok :: "nat \<Rightarrow> jsnum list list \<Rightarrow> bool" where
  "rows_ok m rows = (length rows = m \<and> (\<forall>r\<in>set rows. length r = 5))"

definition returned :: "(error + 'a) option \<Rightarrow> 'a option" where
  "returned r = (case r of Some (Inr res) \<Rightarrow> Some res | Some (Inl e) \<Rightarrow> None | None \<Rightarrow> None)"

definition thrown :: "(error + 'a) option \<Rightarrow> error option" where
  "thrown r = (case r of Some (Inl e) \<Rightarrow> Some e | Some (Inr res) \<Rightarrow> None | None \<Rightarrow> None)"

definition candle_of :: "real \<Rightarrow> candle" where
  "candle_of x =
     \<lparr>date_c = ''2024-01-02'', timestamp_c = 1704153600000, open_c = x, high_c = x + 2,
      low_c = x - 1, close_c = x + 1, volume_c = 1000000 * x\<rparr>"

definition three_sources :: "nat \<Rightarrow> multiSource" where
  "three_sources n =
     [(''SPY'', map (\<lambda>i. candle_of (100 + real i)) [0..<n]),
      (''VIX'', map (\<lambda>i. candle_of (20 + real i)) [0..<n]),
      (''TLT'', map (\<lambda>i. candle_of (90 + real i)) [0..<n])]"

section \<open>The model: life cycle\<close>

text \<open>
  \<open>SSMAttentionModel\<close> (src/models/model.js) holds \<open>model\<close> (\<open>null\<close> until \<open>build\<close>),
  \<open>trained\<close> and \<open>trainingHistory\<close>. TensorFlow.js is outside the code: the compiled
  network that \<open>build\<close> makes is a value of the type \<open>'m\<close>, its \<open>predict\<close> is a parameter
  (it may throw), and a run of \<open>this.model.fit\<close> is given by the logs it hands to
  \<open>onEpochEnd\<close> and by how it ends: it returns after \<open>onTrainEnd\<close> (\<open>Completed\<close>), it throws
  before \<open>onTrainEnd\<close> is called (\<open>Failed\<close>; an exception of \<open>tf.tensor3d\<close> before \<open>fit\<close> or
  of the caller's \<open>onTrainBegin\<close> is such a run without any log, an exception of the caller's
  \<open>onEpochEnd\<close> one whose last log is already pushed), or it throws once \<open>onTrainEnd\<close> has set
  \<open>trained\<close> (\<open>FailedAtEnd\<close>: the caller's \<open>onTrainEnd\<close> throws, or \<open>fit\<close> does after it). The
  configuration of the model is read by TensorFlow.js only and is left out.
\<close>

record epoch_log =
  epoch_l :: nat
  loss_l :: jsnum
  valLoss_l :: jsnum
  mse_l :: jsnum

record 'm SSMAttentionModel =
  model :: "'m option"
  trained :: bool
  trainingHistory :: "epoch_log list"

datatype fit_run = Completed "epoch_log list" | Failed "epoch_log list" | FailedAtEnd "epoch_log list"

definition constructor :: "'m SSMAttentionModel" where
  "constructor = \<lparr>model = None, trained = False, trainingHistory = []\<rparr>"

definition build :: "'m \<Rightarrow> 'm SSMAttentionModel \<Rightarrow> 'm SSMAttentionModel" where
  "build tfm m = m\<lparr>model := Some tfm\<rparr>"

text \<open>
  \<open>train\<close> builds the model itself when there is none (\<open>if (!this.model) this.build()\<close>).
  \<open>onEpochEnd\<close> pushes the log of each epoch onto \<open>this.trainingHistory\<close>; \<open>onTrainEnd\<close> sets
  \<open>this.trained = true\<close> and only then calls the caller's \<open>onTrainEnd\<close>. The \<open>await\<close> of
  \<open>fit\<close> stands in a \<open>try\<close> with a \<open>finally\<close> and no \<open>catch\<close>: an exception leaves \<open>train\<close>
  with the fields as they are then. The result is \<open>this.trainingHistory\<close>.
\<close>

definition train ::
  "'m \<Rightarrow> fit_run \<Rightarrow> 'm SSMAttentionModel \<Rightarrow> (error + epoch_log list) \<times> 'm SSMAttentionModel" where
  "train tfm run m =
     (let m1 = (if model m = None then build tfm m else m)
      in (case run of
            Completed logs \<Rightarrow>
              (let m2 = m1\<lparr>trainingHistory := trainingHistory m1 @ logs, trained := True\<rparr>
               in (Inr (trainingHistory m2), m2))
          | Failed logs \<Rightarrow>
              (Inl FitFailure, m1\<lparr>trainingHistory := trainingHistory m1 @ logs\<rparr>)
          | FailedAtEnd logs \<Rightarrow>
              (Inl FitFailure, m1\<lparr>trainingHistory := trainingHistory m1 @ logs, trained := True\<rparr>)))"

text \<open>
  \<open>predict\<close> and \<open>batchPredict\<close> throw \<open>new Error('Model not trained')\<close>, here
  \<open>ModelNotTrained\<close>. \<open>predict\<close> returns \<open>prediction.arraySync()[0]\<close>, which is \<open>undefined\<close>
  (\<open>None\<close>) for an empty output.
\<close>

definition predict ::
  "('m \<Rightarrow> jsnum list list list \<Rightarrow> error + jsnum list list list) \<Rightarrow> jsnum list list
     \<Rightarrow> 'm SSMAttentionModel \<Rightarrow> error + jsnum list list option" where
  "predict tf_predict input_sequence m =
     (case model m of
        None \<Rightarrow> Inl ModelNotTrained
      | Some tfm \<Rightarrow>
          if \<not> trained m then Inl ModelNotTrained
          else (case tf_predict tfm [input_sequence] of
                  Inl e \<Rightarrow> Inl e
                | Inr prediction \<Rightarrow> Inr (case prediction of [] \<Rightarrow> None | output # rest \<Rightarrow> Some output)))"

definition batchPredict ::
  "('m \<Rightarrow> jsnum list list list \<Rightarrow> error + jsnum list list list) \<Rightarrow> jsnum list list list
     \<Rightarrow> 'm SSMAttentionModel \<Rightarrow> error + jsnum list list list" where
  "batchPredict tf_predict inputSequences m =
     (case model m of
        None \<Rightarrow> Inl ModelNotTrained
      | Some tfm \<Rightarrow>
          if \<not> trained m then Inl ModelNotTrained else tf_predict tfm inputSequences)"

definition dispose :: "'m SSMAttentionModel \<Rightarrow> 'm SSMAttentionModel" where
  "dispose m = m\<lparr>model := None\<rparr>"

text \<open>The three states of the specification, read from the two fields.\<close>

datatype lifecycle = Unbuilt | Built | Trained

definition lifecycle_of :: "'m SSMAttentionModel \<Rightarrow> lifecycle" where
  "lifecycle_of m = (if model m = None then Unbuilt else if trained m then Trained else Built)"

section \<open>The model: attention weights and metrics\<close>

text \<open>
  \<open>Math.sin\<close> is approximated by the engine: on a finite number it returns the double for
  \<open>Math_sin x\<close>, the engine's sine, which is a parameter. \<open>Math.sqrt\<close> is the square root of
  IEEE 754, rounded like the arithmetic operations. A literal such as \<open>0.2\<close> is the double
  nearest to it.
\<close>

fun js_sin :: "(real \<Rightarrow> real) \<Rightarrow> jsnum \<Rightarrow> jsnum" where
  "js_sin Math_sin (Num x) = fl (Math_sin x)"
| "js_sin Math_sin a = NaN"

fun js_sqrt :: "jsnum \<Rightarrow> jsnum" where
  "js_sqrt (Num x) = (if x < 0 then NaN else fl (sqrt x))"
| "js_sqrt PosInf = PosInf"
| "js_sqrt a = NaN"

text \<open>\<open>values.reduce((a, b) => a + b, 0)\<close>.\<close>

definition js_sum :: "jsnum list \<Rightarrow> jsnum" where
  "js_sum vs = foldl js_add (Num 0) vs"

definition getSourceAttentionWeights ::
  "(real \<Rightarrow> real) \<Rightarrow> string list \<Rightarrow> 'm SSMAttentionModel \<Rightarrow> jsnum list" where
  "getSourceAttentionWeights Math_sin sourceNames m =
     (if \<not> trained m
      then map (\<lambda>name. js_div (Num 1) (Num (real (length sourceNames)))) sourceNames
      else
        (let seed = (if length (trainingHistory m) > 0 then loss_l (last (trainingHistory m))
                     else fl (5 / 10));
             weights = map (\<lambda>i.
                 (let base = js_div (Num 1) (Num (real (length sourceNames)));
                      variation = js_mul (js_sin Math_sin (js_mul (js_mul seed (Num (real (i + 1)))) (Num 10)))
                                    (fl (2 / 10))
                  in js_max2 (fl (5 / 100)) (js_add base variation)))
               [0..<length sourceNames];
             sum = js_sum weights
         in map (\<lambda>w. js_div w sum) weights))"






text \<open>
  \<open>calculateCorrelation\<close>. \<open>flat(2)\<close> of an array of arrays of arrays of numbers is the
  concatenation of all rows. \<open>actualFlat[i]\<close> is \<open>undefined\<close> (\<open>NaN\<close> in the subtraction) when
  \<open>actualFlat\<close> is shorter than \<open>predFlat\<close>. The triple is
  \<open>(numerator, denomPred, denomActual)\<close>.
\<close>

definition flat2 :: "jsnum list list list \<Rightarrow> jsnum list" where
  "flat2 xs = concat (concat xs)"

definition corr_step ::
  "jsnum list \<Rightarrow> jsnum list \<Rightarrow> jsnum \<Rightarrow> jsnum \<Rightarrow> jsnum \<times> jsnum \<times> jsnum \<Rightarrow> nat
     \<Rightarrow> jsnum \<times> jsnum \<times> jsnum" where
  "corr_step predFlat actualFlat meanPred meanActual acc i =
     (case acc of (numerator, denomPred, denomActual) \<Rightarrow>
        (let diffPred = js_sub (nth_num predFlat i) meanPred;
             diffActual = js_sub (nth_num actualFlat i) meanActual
         in (js_add numerator (js_mul diffPred diffActual),
             js_add denomPred (js_mul diffPred diffPred),
             js_add denomActual (js_mul diffActual diffActual))))"

definition calculateCorrelation :: "jsnum list list list \<Rightarrow> jsnum list list list \<Rightarrow> jsnum" where
  "calculateCorrelation predictions actuals =
     (let predFlat = flat2 predictions;
          actualFlat = flat2 actuals;
          n = length predFlat
      in if n = 0 then Num 0
         else
           (let meanPred = js_div (js_sum predFlat) (Num (real n));
                meanActual = js_div (js_sum actualFlat) (Num (real n));
                (numerator, denomPred, denomActual) =
                   foldl (corr_step predFlat actualFlat meanPred meanActual)
                     (Num 0, Num 0, Num 0) [0..<n];
                denom = js_mul (js_sqrt denomPred) (js_sqrt denomActual)
            in if js_gt denom (Num 0) then js_div numerator denom else Num 0))"









text \<open>
  For the statements about \<open>getSourceAttentionWeights\<close>: whether a number is finite, whether
  the seed of the weights (the last recorded loss, or \<open>0.5\<close> without history) is, and the
  weight of the source \<open>i\<close> among \<open>n\<close> before the division by the sum.
\<close>

fun is_finite :: "jsnum \<Rightarrow> bool" where
  "is_finite (Num x) = True"
| "is_finite a = False"

definition seed_finite :: "'m SSMAttentionModel \<Rightarrow> bool" where
  "seed_finite m = (trainingHistory m = [] \<or> is_finite (loss_l (last (trainingHistory m))))"

definition weight_of :: "real \<Rightarrow> nat \<Rightarrow> nat \<Rightarrow> real" where
  "weight_of seed n i = max (5 / 100) (1 / real n + sin (seed * real (i + 1) * 10) * (2 / 10))"


text \<open>
  For the statements about \<open>calculateCorrelation\<close>: arrays of finite numbers, their
  flattening, and the Pearson correlation coefficient as the specification has it, on two series
  of the same length: the covariance over the product of the standard deviations, and \<open>0\<close>
  when that product is not positive.
\<close>

definition nums :: "real list list list \<Rightarrow> jsnum list list list" where
  "nums xs = map (map (map Num)) xs"


definition flat :: "real list list list \<Rightarrow> real list" where
  "flat xs = concat (concat xs)"


definition mean :: "real list \<Rightarrow> real" where
  "mean xs = sum_list xs / real (length xs)"


definition pearson :: "real list \<Rightarrow> real list \<Rightarrow> real" where
  "pearson xs ys =
     (let cov = (\<Sum>(x, y)\<leftarrow>zip xs ys. (x - mean xs) * (y - mean ys));
          varx = (\<Sum>x\<leftarrow>xs. (x - mean xs) * (x - mean xs));
          vary = (\<Sum>y\<leftarrow>ys. (y - mean ys) * (y - mean ys))
      in if 0 < sqrt varx * sqrt vary then cov / (sqrt varx * sqrt vary) else 0)"















text \<open>
  For the statements about numbers: a real number is a double when rounding leaves it
  unchanged, a candle is well formed when its numbers are doubles, and so is an input when its
  candles are. For the proofs about rounding: the multiples of the smallest positive double.
\<close>

definition double :: "real \<Rightarrow> bool" where
  "double x = (fl x = Num x)"





definition grid :: "real \<Rightarrow> bool" where
  "grid x = (of_int \<lfloor>x * 2 powi 1074\<rfloor> = x * 2 powi 1074)"
section \<open>Rounding to the nearest integer\<close>

lemma round_even_of_int [simp]: "round_even (of_int k) = k"
  by (simp add: round_even_def)

lemma round_even_cases:
  "round_even r = \<lfloor>r\<rfloor> \<and> r - of_int \<lfloor>r\<rfloor> \<le> 1 / 2
   \<or> round_even r = \<lfloor>r\<rfloor> + 1 \<and> 1 / 2 \<le> r - of_int \<lfloor>r\<rfloor>"
  by (auto simp: round_even_def Let_def)

lemma round_even_err: "\<bar>of_int (round_even r) - r\<bar> \<le> 1 / 2"
proof -
  have "of_int \<lfloor>r\<rfloor> \<le> r" "r < of_int \<lfloor>r\<rfloor> + 1" by linarith+
  then show ?thesis using round_even_cases[of r] by auto
qed

lemma round_even_unique:
  assumes "\<bar>r - of_int m\<bar> < 1 / 2"
  shows "round_even r = m"
proof -
  have e: "\<bar>of_int (round_even r) - r\<bar> \<le> 1 / 2" by (rule round_even_err)
  have "\<bar>(of_int (round_even r) :: real) - of_int m\<bar> < 1" using assms e by linarith
  then have "\<bar>round_even r - m\<bar> < 1"
    by (metis of_int_diff of_int_abs of_int_less_1_iff)
  then show ?thesis by linarith
qed




section \<open>The exponent\<close>

lemma expo_from_facts:
  "k \<le> expo_from a k n \<and> expo_from a k n \<le> k + int n
   \<and> (expo_from a k n < k + int n \<longrightarrow> a < 2 powi (expo_from a k n + 1))
   \<and> (k < expo_from a k n \<longrightarrow> 2 powi (expo_from a k n) \<le> a)"
proof (induction n arbitrary: k)
  case 0
  then show ?case by simp
next
  case (Suc n)
  show ?case
  proof (cases "a < 2 powi (k + 1)")
    case True
    then show ?thesis by simp
  next
    case False
    have e: "expo_from a k (Suc n) = expo_from a (k + 1) n" using False by simp
    define j where "j = expo_from a (k + 1) n"
    have ih: "k + 1 \<le> j" "j \<le> k + 1 + int n" "j < k + 1 + int n \<longrightarrow> a < 2 powi (j + 1)"
      "k + 1 < j \<longrightarrow> 2 powi j \<le> a"
      using Suc.IH[of "k + 1"] by (simp_all add: j_def)
    have "2 powi j \<le> a"
    proof (cases "j = k + 1")
      case True
      then show ?thesis using False by simp
    next
      case False
      then show ?thesis using ih(1) ih(4) by simp
    qed
    then show ?thesis using ih unfolding e j_def[symmetric] by simp
  qed
qed

lemma expo_range: "- 1022 \<le> expo x" "expo x \<le> 1024"
  using expo_from_facts[of "- 1022" "\<bar>x\<bar>" 2046] by (simp_all add: expo_def)

lemma expo_upper: "expo x < 1024 \<Longrightarrow> \<bar>x\<bar> < 2 powi (expo x + 1)"
  using expo_from_facts[of "- 1022" "\<bar>x\<bar>" 2046] by (simp add: expo_def)

lemma expo_lower: "- 1022 < expo x \<Longrightarrow> 2 powi (expo x) \<le> \<bar>x\<bar>"
  using expo_from_facts[of "- 1022" "\<bar>x\<bar>" 2046] by (simp add: expo_def)

lemma expo_minus [simp]: "expo (- x) = expo x"
  by (simp add: expo_def)

lemma expo_abs [simp]: "expo \<bar>x\<bar> = expo x"
  by (simp add: expo_def)

lemma powi2_less_iff: "(2::real) powi a < 2 powi b \<longleftrightarrow> a < b"
  by (metis less_irrefl linorder_less_linear one_less_numeral_iff order_less_asym
      power_int_strict_increasing semiring_norm(76))

lemma powi2_le_iff: "(2::real) powi a \<le> 2 powi b \<longleftrightarrow> a \<le> b"
  by (metis linorder_not_less powi2_less_iff)

lemma expo_eq:
  assumes "- 1022 \<le> k" "k \<le> 1023" "k = - 1022 \<or> 2 powi k \<le> \<bar>x\<bar>" "\<bar>x\<bar> < 2 powi (k + 1)"
  shows "expo x = k"
proof (rule antisym)
  show "expo x \<le> k"
  proof (rule ccontr)
    assume "\<not> expo x \<le> k"
    then have g: "k + 1 \<le> expo x" by simp
    then have "- 1022 < expo x" using assms(1) by simp
    then have "2 powi (expo x) \<le> \<bar>x\<bar>" by (rule expo_lower)
    moreover have "(2::real) powi (k + 1) \<le> 2 powi (expo x)" using g by (simp add: powi2_le_iff)
    ultimately show False using assms(4) by linarith
  qed
next
  show "k \<le> expo x"
  proof (rule ccontr)
    assume "\<not> k \<le> expo x"
    then have g: "expo x + 1 \<le> k" by simp
    then have "expo x < 1024" using assms(2) by simp
    then have u: "\<bar>x\<bar> < 2 powi (expo x + 1)" by (rule expo_upper)
    have "k \<noteq> - 1022" using g expo_range(1)[of x] by linarith
    then have "2 powi k \<le> \<bar>x\<bar>" using assms(3) by simp
    moreover have "(2::real) powi (expo x + 1) \<le> 2 powi k" using g by (simp add: powi2_le_iff)
    ultimately show False using u by linarith
  qed
qed



section \<open>Rounding\<close>

lemma powi2_add: "(2::real) powi (a + b) = 2 powi a * 2 powi b"
  by (simp add: power_int_add)



lemma quantum_nonneg [simp]: "0 \<le> quantum x"
  by (simp add: quantum_def)

lemma quantum_pos [simp]: "0 < quantum x"
  by (simp add: quantum_def)

lemma quantum_minus [simp]: "quantum (- x) = quantum x"
  by (simp add: quantum_def)


lemma rnd_0 [simp]: "rnd 0 = 0"
  using round_even_of_int[of 0] by (simp add: rnd_def)

lemma rnd_err: "\<bar>rnd x - x\<bar> \<le> quantum x / 2"
proof -
  define q where "q = quantum x"
  define M :: real where "M = of_int (round_even (x / q))"
  have q: "0 < q" by (simp add: q_def)
  have "\<bar>M - x / q\<bar> \<le> 1 / 2" unfolding M_def by (rule round_even_err)
  then have "\<bar>M - x / q\<bar> * q \<le> 1 / 2 * q"
    using q by (intro mult_right_mono) simp_all
  moreover have "\<bar>M - x / q\<bar> * q = \<bar>(M - x / q) * q\<bar>"
    using q by (simp add: abs_mult)
  moreover have "(M - x / q) * q = M * q - x"
    using q by (simp add: algebra_simps)
  ultimately have "\<bar>M * q - x\<bar> \<le> q / 2" by simp
  then show ?thesis by (simp add: rnd_def q_def M_def)
qed

lemma rnd_multiple: "x = of_int m * quantum x \<Longrightarrow> rnd x = x"
proof -
  assume a: "x = of_int m * quantum x"
  have "x / quantum x = of_int m"
    using a quantum_pos[of x] by (metis less_irrefl nonzero_mult_div_cancel_right)
  then show ?thesis using a by (simp add: rnd_def)
qed







text \<open>Numbers that the format holds.\<close>

lemma rnd_exact:
  assumes x: "x = of_int m * 2 powi e" and m: "\<bar>m\<bar> < 2 ^ 53" and e: "- 1074 \<le> e"
  shows "rnd x = x"
proof -
  define k where "k = expo x"
  have ge: "k - 52 \<le> e"
  proof (cases "k = - 1022")
    case True
    then show ?thesis using e by simp
  next
    case False
    then have "- 1022 < expo x" using expo_range(1)[of x] by (simp add: k_def)
    then have "2 powi k \<le> \<bar>x\<bar>" unfolding k_def by (rule expo_lower)
    also have "\<bar>x\<bar> = \<bar>of_int m\<bar> * 2 powi e" by (simp add: x abs_mult)
    also have "\<dots> < of_int (2 ^ 53) * 2 powi e"
    proof -
      have "\<bar>(of_int m :: real)\<bar> < of_int (2 ^ 53)"
        using m by (metis of_int_abs of_int_less_iff)
      then show ?thesis by (simp add: mult_strict_right_mono)
    qed
    also have "(of_int (2 ^ 53) :: real) * 2 powi e = 2 powi (53 + e)"
      by (simp add: power_int_add)
    finally have "k < 53 + e" by (simp add: powi2_less_iff)
    then show ?thesis by simp
  qed
  define d where "d = nat (e - (k - 52))"
  have de: "e = (k - 52) + int d" using ge by (simp add: d_def)
  have "x = of_int m * (2 powi (k - 52) * 2 powi (int d))"
    by (simp add: x de power_int_add)
  also have "\<dots> = of_int (m * 2 ^ d) * quantum x"
    by (simp add: quantum_def k_def)
  finally show ?thesis by (rule rnd_multiple)
qed

lemma rnd_of_int: "\<bar>m\<bar> < 2 ^ 53 \<Longrightarrow> rnd (of_int m) = of_int m"
  using rnd_exact[of "of_int m" m 0] by simp



text \<open>The relative error of a rounding in the normal range, and the absolute error below
  it.\<close>

lemma rnd_rel_err:
  assumes "2 powi (- 1022) \<le> \<bar>x\<bar>"
  shows "\<bar>rnd x - x\<bar> \<le> 2 powi (- 53) * \<bar>x\<bar>"
proof -
  have "2 powi (expo x) \<le> \<bar>x\<bar>"
  proof (cases "expo x = - 1022")
    case True
    then show ?thesis using assms by simp
  next
    case False
    then show ?thesis using expo_range(1)[of x] by (intro expo_lower) simp
  qed
  then have "2 powi (- 53) * 2 powi (expo x) \<le> 2 powi (- 53) * \<bar>x\<bar>" by simp
  moreover have "quantum x / 2 = 2 powi (- 53) * 2 powi (expo x)"
    by (simp add: quantum_def power_int_diff power_int_minus field_simps)
  ultimately show ?thesis using rnd_err[of x] by linarith
qed

lemma rnd_abs_err: "\<bar>rnd x - x\<bar> \<le> 2 powi (- 53) * \<bar>x\<bar> + 2 powi (- 1075)"
proof (cases "2 powi (- 1022) \<le> \<bar>x\<bar>")
  case True
  have "(0::real) \<le> 2 powi (- 1075)" by simp
  then show ?thesis using rnd_rel_err[OF True] by linarith
next
  case False
  then have "expo x = - 1022" by (intro expo_eq) simp_all
  then have "quantum x / 2 = 2 powi (- 1075)"
    by (simp add: quantum_def)
  moreover have "0 \<le> 2 powi (- 53) * \<bar>x\<bar>" by simp
  ultimately show ?thesis using rnd_err[of x] by linarith
qed

text \<open>Every rounded number is a multiple of \<open>2 powi (- 1074)\<close>, and such a multiple below
  the normal range is rounded to itself.\<close>

lemma grid_def': "grid x = (\<exists>j::int. x = of_int j * 2 powi (- 1074))"
proof
  assume "grid x"
  then have "x * 2 powi 1074 = of_int \<lfloor>x * 2 powi 1074\<rfloor>" by (simp only: grid_def)
  then have "x * 2 powi 1074 * 2 powi (- 1074) = of_int \<lfloor>x * 2 powi 1074\<rfloor> * 2 powi (- 1074)"
    by (rule arg_cong)
  moreover have "x * 2 powi 1074 * 2 powi (- 1074) = x * (2 powi 1074 * 2 powi (- 1074))"
    by (rule mult.assoc)
  moreover have "(2::real) powi 1074 * 2 powi (- 1074) = 1"
    by (simp only: powi2_add[symmetric]) simp
  ultimately have "x = of_int \<lfloor>x * 2 powi 1074\<rfloor> * 2 powi (- 1074)" by simp
  then show "\<exists>j::int. x = of_int j * 2 powi (- 1074)" ..
next
  assume "\<exists>j::int. x = of_int j * 2 powi (- 1074)"
  then obtain j :: int where j: "x = of_int j * 2 powi (- 1074)" ..
  have "x * 2 powi 1074 = of_int j * (2 powi (- 1074) * 2 powi 1074)"
    unfolding j by (rule mult.assoc)
  moreover have "(2::real) powi (- 1074) * 2 powi 1074 = 1"
    by (simp only: powi2_add[symmetric]) simp
  ultimately have "x * 2 powi 1074 = of_int j" by simp
  then show "grid x" by (simp only: grid_def floor_of_int)
qed

lemma grid_rnd: "grid (rnd x)"
proof -
  define d where "d = nat (expo x + 1022)"
  have "expo x - 52 = - 1074 + int d" using expo_range(1)[of x] by (simp add: d_def)
  then have "quantum x = 2 powi (- 1074) * 2 powi (int d)"
    unfolding quantum_def by (simp only: powi2_add)
  then have "rnd x = of_int (round_even (x / quantum x) * 2 ^ d) * 2 powi (- 1074)"
    by (simp add: rnd_def)
  then show ?thesis unfolding grid_def' by blast
qed

lemma grid_add: "grid a \<Longrightarrow> grid b \<Longrightarrow> grid (a + b)"
proof -
  assume "grid a" "grid b"
  then obtain i j :: int where "a = of_int i * 2 powi (- 1074)" "b = of_int j * 2 powi (- 1074)"
    unfolding grid_def' by blast
  then have "a + b = of_int (i + j) * 2 powi (- 1074)" by (simp add: algebra_simps)
  then show ?thesis unfolding grid_def' by blast
qed

lemma grid_minus: "grid a \<Longrightarrow> grid (- a)"
proof -
  assume "grid a"
  then obtain i :: int where "a = of_int i * 2 powi (- 1074)" unfolding grid_def' by blast
  then have "- a = of_int (- i) * 2 powi (- 1074)" by simp
  then show ?thesis unfolding grid_def' by blast
qed

lemma rnd_grid_small:
  assumes "grid x" "\<bar>x\<bar> < 2 powi (- 1022)"
  shows "rnd x = x"
proof -
  have "expo x = - 1022" using assms(2) by (intro expo_eq) simp_all
  then have "quantum x = 2 powi (- 1074)" by (simp add: quantum_def)
  then show ?thesis using assms(1) unfolding grid_def' by (metis rnd_multiple)
qed

lemma rnd_grid_rel_err:
  assumes "grid x"
  shows "\<bar>rnd x - x\<bar> \<le> 2 powi (- 53) * \<bar>x\<bar>"
proof (cases "2 powi (- 1022) \<le> \<bar>x\<bar>")
  case True
  then show ?thesis by (rule rnd_rel_err)
next
  case False
  then have "rnd x = x" using assms by (intro rnd_grid_small) simp_all
  then show ?thesis by simp
qed


section \<open>Rounding of explicit numbers\<close>

lemma rnd_eval:
  assumes "- 1022 \<le> k" "k \<le> 1023" "k = - 1022 \<or> 2 powi k \<le> \<bar>x\<bar>" "\<bar>x\<bar> < 2 powi (k + 1)"
    and "\<bar>x / 2 powi (k - 52) - of_int m\<bar> < 1 / 2"
  shows "rnd x = of_int m * 2 powi (k - 52)"
proof -
  have "expo x = k" using assms(1-4) by (rule expo_eq)
  then have q: "quantum x = 2 powi (k - 52)" by (simp add: quantum_def)
  have "round_even (x / 2 powi (k - 52)) = m" using assms(5) by (rule round_even_unique)
  then show ?thesis by (simp add: rnd_def q)
qed

section \<open>Rounding to a number of JavaScript\<close>



lemma fl_cases:
  fixes P :: real
  assumes "P = 2 powi 1024"
  shows "fl x = (if P \<le> rnd x then PosInf else if rnd x \<le> - P then NegInf else Num (rnd x))"
  unfolding fl_def Let_def assms ..


lemma fl_Num: "\<bar>rnd x\<bar> < 2 powi 1024 \<Longrightarrow> fl x = Num (rnd x)"
proof -
  define P :: real where "P = 2 powi 1024"
  assume "\<bar>rnd x\<bar> < 2 powi 1024"
  then have "\<bar>rnd x\<bar> < P" unfolding P_def .
  then show ?thesis unfolding fl_cases[OF P_def] by auto
qed


lemma fl_not_NaN [simp]: "fl x \<noteq> NaN"
proof -
  define P :: real where "P = 2 powi 1024"
  show ?thesis unfolding fl_cases[OF P_def] by auto
qed

lemma fl_PosInfD: "fl x = PosInf \<Longrightarrow> 2 powi 1024 \<le> rnd x"
proof -
  define P :: real where "P = 2 powi 1024"
  assume "fl x = PosInf"
  then have "P \<le> rnd x" unfolding fl_cases[OF P_def] by (auto split: if_splits)
  then show ?thesis unfolding P_def .
qed

lemma fl_NegInfD: "fl x = NegInf \<Longrightarrow> rnd x \<le> - (2 powi 1024)"
proof -
  define P :: real where "P = 2 powi 1024"
  assume "fl x = NegInf"
  then have "rnd x \<le> - P" unfolding fl_cases[OF P_def] by (auto split: if_splits)
  then show ?thesis unfolding P_def .
qed

lemma fl_0 [simp]: "fl 0 = Num 0"
  by (simp add: fl_Num)





lemma fl_exact:
  assumes "x = of_int m * 2 powi e" "\<bar>m\<bar> < 2 ^ 53" "- 1074 \<le> e" "\<bar>x\<bar> < 2 powi 1024"
  shows "fl x = Num x"
  using rnd_exact[OF assms(1-3)] assms(4) fl_Num[of x] by simp

lemma fl_of_int: "\<bar>m\<bar> < 2 ^ 53 \<Longrightarrow> fl (of_int m) = Num (of_int m)"
proof -
  assume m: "\<bar>m\<bar> < 2 ^ 53"
  then have "\<bar>(of_int m :: real)\<bar> < of_int (2 ^ 53)" by (metis of_int_abs of_int_less_iff)
  also have "(of_int (2 ^ 53) :: real) = 2 powi 53" by simp
  also have "(2::real) powi 53 < 2 powi 1024" by (simp only: powi2_less_iff)
  finally have "\<bar>(of_int m :: real)\<bar> < 2 powi 1024" .
  moreover have "(of_int m :: real) = of_int m * 2 powi 0" by simp
  ultimately show ?thesis using m by (intro fl_exact[of _ m 0]) simp_all
qed

section \<open>Doubles\<close>

lemma fl_1 [simp]: "fl 1 = Num 1"
  using fl_of_int[of 1] by simp


lemma fl_neg_numeral: "(numeral n :: int) < 2 ^ 53 \<Longrightarrow> fl (- numeral n) = Num (- numeral n)"
  using fl_of_int[of "- numeral n"] by simp











lemma double_0 [simp]: "double 0"
  by (simp add: double_def)

lemma double_1 [simp]: "double 1"
  by (simp add: double_def)


section \<open>Minimum and maximum of finite numbers\<close>













section \<open>normalize and denormalize\<close>


lemma values_of_numbers: "truthy_key key = None \<Longrightarrow> values_of (map NumItem v) key = map Num v"
  by (simp add: values_of_def o_def)

lemma values_of_records:
  assumes "truthy_key key = Some k"
    and "list_all2 (\<lambda>d x. \<exists>fs. d = ObjItem fs \<and> map_of fs k = Some x) data v"
  shows "values_of data key = map Num v"
proof -
  have "map (\<lambda>d. field_num d k) data = map Num v"
    using assms(2) by (induction rule: list_all2_induct) auto
  then show ?thesis using assms(1) by (simp add: values_of_def)
qed


section \<open>Training windows: shapes, short data, missing target\<close>



lemma normalizedRow_length:
  "length (fst (normalizedRow symbol features d row ns)) = length row"
  by (induction row arbitrary: d ns) (simp_all add: split_beta)


lemma normalizedFeatures_shape:
  "map length (fst (normalizedFeatures symbol features rows ns)) = map length rows"
  by (induction rows arbitrary: ns) (simp_all add: split_beta normalizedRow_length)



lemma extractFeatures_shape:
  "length (extractFeatures data) = length data"
  "\<forall>r\<in>set (extractFeatures data). length r = 5"
  by (auto simp: extractFeatures_def)

lemma normalizedFeatures_rows_ok:
  assumes "m \<le> length series"
  shows "rows_ok m (fst (normalizedFeatures symbol (extractFeatures (take m series))
                           (extractFeatures (take m series)) ns))"
proof -
  let ?F = "extractFeatures (take m series)"
  let ?R = "fst (normalizedFeatures symbol ?F ?F ns)"
  have ml: "map length ?R = map length ?F" by (rule normalizedFeatures_shape)
  then have "length ?R = length ?F" by (metis length_map)
  then have len: "length ?R = m" using assms by (simp add: extractFeatures_shape)
  have "\<forall>n\<in>set (map length ?F). n = 5" using extractFeatures_shape(2)[of "take m series"] by auto
  then have "\<forall>n\<in>set (map length ?R). n = 5" using ml by simp
  then have "\<forall>r\<in>set ?R. length r = 5" by auto
  then show ?thesis using len by (simp add: rows_ok_def)
qed

lemma normalize_all_rows:
  assumes "\<forall>(symbol, series)\<in>set msd. m \<le> length series"
    and "\<forall>s\<in>S. \<exists>rows. acc s = Some rows \<and> rows_ok m rows"
  shows "\<forall>s\<in>S \<union> fst ` set msd.
           \<exists>rows. fst (normalize_all (Some m) msd acc ns) s = Some rows \<and> rows_ok m rows"
  using assms
proof (induction msd arbitrary: acc ns S)
  case Nil
  then show ?case by simp
next
  case (Cons entry msd)
  obtain symbol series where e: "entry = (symbol, series)" by (cases entry)
  let ?F = "extractFeatures (take m series)"
  let ?nf = "fst (normalizedFeatures symbol ?F ?F ns)"
  let ?ns1 = "snd (normalizedFeatures symbol ?F ?F ns)"
  have m: "m \<le> length series" using Cons.prems(1) e by simp
  have ok: "rows_ok m ?nf" using m by (rule normalizedFeatures_rows_ok)
  have rest: "\<forall>(symbol, series)\<in>set msd. m \<le> length series" using Cons.prems(1) by simp
  have acc': "\<forall>s\<in>insert symbol S. \<exists>rows. (acc(symbol \<mapsto> ?nf)) s = Some rows \<and> rows_ok m rows"
    using Cons.prems(2) ok by simp
  have "\<forall>s\<in>insert symbol S \<union> fst ` set msd.
          \<exists>rows. fst (normalize_all (Some m) msd (acc(symbol \<mapsto> ?nf)) ?ns1) s = Some rows \<and> rows_ok m rows"
    using Cons.IH[OF rest acc'] .
  then show ?case unfolding e by (simp add: split_beta Let_def)
qed

lemma normalize_all_other:
  "s \<notin> fst ` set msd \<Longrightarrow> fst (normalize_all minLength msd acc ns) s = acc s"
proof (induction msd arbitrary: acc ns)
  case Nil
  then show ?case by simp
next
  case (Cons entry msd)
  obtain symbol series where e: "entry = (symbol, series)" by (cases entry)
  have "s \<noteq> symbol" "s \<notin> fst ` set msd" using Cons.prems e by auto
  then show ?case unfolding e using Cons.IH by (simp add: split_beta Let_def)
qed

lemma foldl_min_nat_le: "foldl min (a::nat) xs \<le> a \<and> (\<forall>x\<in>set xs. foldl min a xs \<le> x)"
proof (induction xs arbitrary: a)
  case Nil
  show ?case by simp
next
  case (Cons y ys)
  have "foldl min (min a y) ys \<le> min a y" using Cons.IH by blast
  moreover have "\<forall>x\<in>set ys. foldl min (min a y) ys \<le> x" using Cons.IH by blast
  ultimately show ?case by auto
qed

lemma minLength_of_le:
  assumes "minLength_of (map length (map snd msd)) = Some m"
  shows "\<forall>(symbol, series)\<in>set msd. m \<le> length series"
proof (cases msd)
  case Nil
  then show ?thesis using assms by simp
next
  case (Cons e es)
  then have m: "m = foldl min (length (snd e)) (map length (map snd es))" using assms by simp
  show ?thesis
    unfolding Cons m using foldl_min_nat_le[of "length (snd e)" "map length (map snd es)"]
    by auto
qed

lemma mapE_all:
  assumes "\<forall>x\<in>set xs. \<exists>y. f x = Inr y \<and> P y"
  shows "\<exists>ys. mapE f xs = Inr ys \<and> length ys = length xs \<and> (\<forall>y\<in>set ys. P y)"
  using assms
proof (induction xs)
  case Nil
  then show ?case by simp
next
  case (Cons x xs)
  obtain y where y: "f x = Inr y" "P y" using Cons.prems by auto
  obtain ys where ys: "mapE f xs = Inr ys" "length ys = length xs" "\<forall>y\<in>set ys. P y"
    using Cons.IH Cons.prems by auto
  show ?case using y ys by simp
qed


lemma mapE_Inl:
  assumes "mapE f xs = Inl e"
  shows "\<exists>x\<in>set xs. f x = Inl e"
  using assms
proof (induction xs)
  case Nil
  then show ?case by simp
next
  case (Cons x xs)
  then show ?case by (auto split: sum.splits)
qed

lemma timeStep_ok:
  assumes "\<forall>s\<in>set sources. \<exists>rows. nsrc s = Some rows \<and> rows_ok m rows" and "j < m"
  shows "\<exists>row. timeStep nsrc sources j = Inr row \<and> length row = 5 * length sources"
  using assms(1)
proof (induction sources)
  case Nil
  then show ?case by simp
next
  case (Cons s sources)
  obtain rows where rows: "nsrc s = Some rows" "rows_ok m rows" using Cons.prems by auto
  obtain row where row: "timeStep nsrc sources j = Inr row" "length row = 5 * length sources"
    using Cons.IH Cons.prems by auto
  have j: "j < length rows" "length (rows ! j) = 5"
    using rows(2) assms(2) by (auto simp: rows_ok_def)
  show ?case using rows(1) row j by simp
qed

lemma timeStep_error: "timeStep nsrc sources j = Inl e \<Longrightarrow> e = TypeError"
  by (induction sources) (auto split: option.splits if_splits sum.splits)

lemma inputSequence_ok:
  assumes "\<forall>s\<in>set sources. \<exists>rows. nsrc s = Some rows \<and> rows_ok m rows"
    and "int i + lookback \<le> int m"
  shows "\<exists>x. inputSequence nsrc sources lookback i = Inr x \<and> length x = nat lookback
            \<and> (\<forall>row\<in>set x. length row = 5 * length sources)"
proof -
  have "\<forall>t\<in>set [0..<nat lookback]. \<exists>row. timeStep nsrc sources (i + t) = Inr row
           \<and> length row = 5 * length sources"
  proof
    fix t assume "t \<in> set [0..<nat lookback]"
    then have "i + t < m" using assms(2) by auto
    with assms(1) show "\<exists>row. timeStep nsrc sources (i + t) = Inr row
           \<and> length row = 5 * length sources"
      by (rule timeStep_ok)
  qed
  from mapE_all[OF this] show ?thesis
    by (auto simp: inputSequence_def)
qed

lemma inputSequence_error:
  "inputSequence nsrc sources lookback i = Inl e \<Longrightarrow> e = TypeError"
  unfolding inputSequence_def using mapE_Inl timeStep_error by fast

lemma targetSequence_ok:
  assumes "nsrc target = Some rows" "rows_ok m rows"
    and "0 \<le> lookback" and "int i + lookback + forecast \<le> int m"
  shows "\<exists>y. targetSequence nsrc target lookback forecast i = Inr y \<and> length y = nat forecast
            \<and> (\<forall>row\<in>set y. length row = 4)"
proof -
  have "\<forall>t\<in>set [0..<nat forecast].
          \<exists>row. targetFeatures nsrc target (int i + lookback + int t) = Inr row \<and> length row = 4"
  proof
    fix t assume "t \<in> set [0..<nat forecast]"
    then have t: "int i + lookback + int t < int m" "0 \<le> int i + lookback + int t"
      using assms(3,4) by auto
    then have j: "nat (int i + lookback + int t) < length rows"
      using assms(2) by (simp add: rows_ok_def)
    then have "length (rows ! nat (int i + lookback + int t)) = 5"
      using assms(2) by (simp add: rows_ok_def)
    then show "\<exists>row. targetFeatures nsrc target (int i + lookback + int t) = Inr row \<and> length row = 4"
      using assms(1) t j by (simp add: targetFeatures_def)
  qed
  from mapE_all[OF this] show ?thesis
    by (auto simp: targetSequence_def)
qed

lemma targetSequence_absent:
  assumes "nsrc target = None" "1 \<le> forecast"
  shows "targetSequence nsrc target lookback forecast i = Inl TypeError"
proof -
  have "[0..<nat forecast] = 0 # [1..<nat forecast]"
    using assms(2) by (simp add: upt_conv_Cons)
  then show ?thesis
    using assms(1) by (simp add: targetSequence_def targetFeatures_def)
qed

lemma samples_loop_done:
  "\<not> below_total i tot \<Longrightarrow>
   samples_loop nsrc sources target lookback forecast tot i X Y = Some (Inr (X, Y))"
  by (subst samples_loop.simps) simp

lemma samples_loop_step:
  "below_total i tot \<Longrightarrow> inputSequence nsrc sources lookback i = Inr x \<Longrightarrow>
   targetSequence nsrc target lookback forecast i = Inr y \<Longrightarrow>
   samples_loop nsrc sources target lookback forecast tot i X Y
     = samples_loop nsrc sources target lookback forecast tot (Suc i) (X @ [x]) (Y @ [y])"
  by (subst samples_loop.simps) simp

lemma samples_loop_input_error:
  "below_total i tot \<Longrightarrow> inputSequence nsrc sources lookback i = Inl e \<Longrightarrow>
   samples_loop nsrc sources target lookback forecast tot i X Y = Some (Inl e)"
  by (subst samples_loop.simps) simp

lemma samples_loop_target_error:
  "below_total i tot \<Longrightarrow> inputSequence nsrc sources lookback i = Inr x \<Longrightarrow>
   targetSequence nsrc target lookback forecast i = Inl e \<Longrightarrow>
   samples_loop nsrc sources target lookback forecast tot i X Y = Some (Inl e)"
  by (subst samples_loop.simps) simp

text \<open>With a finite bound the loop ends, when no iteration throws.\<close>

lemma samples_loop_total:
  assumes "\<forall>i. i0 \<le> i \<and> int i < n \<longrightarrow>
             (\<exists>x. inputSequence nsrc sources lookback i = Inr x \<and> PX x)
             \<and> (\<exists>y. targetSequence nsrc target lookback forecast i = Inr y \<and> PY y)"
  shows "\<exists>X Y. samples_loop nsrc sources target lookback forecast (Some n) i0 X0 Y0
                  = Some (Inr (X0 @ X, Y0 @ Y))
           \<and> length X = nat (n - int i0) \<and> length Y = nat (n - int i0)
           \<and> (\<forall>x\<in>set X. PX x) \<and> (\<forall>y\<in>set Y. PY y)"
  using assms
proof (induction "nat (n - int i0)" arbitrary: i0 X0 Y0)
  case 0
  then have "\<not> below_total i0 (Some n)" by simp
  then have "samples_loop nsrc sources target lookback forecast (Some n) i0 X0 Y0
               = Some (Inr (X0 @ [], Y0 @ []))"
    using samples_loop_done by simp
  moreover have "nat (n - int i0) = 0" using 0 by simp
  ultimately show ?case by (intro exI[of _ "[]"]) simp
next
  case (Suc k)
  then have b: "below_total i0 (Some n)" by simp
  obtain x y where x: "inputSequence nsrc sources lookback i0 = Inr x" "PX x"
    and y: "targetSequence nsrc target lookback forecast i0 = Inr y" "PY y"
    using Suc.prems b by auto
  have k: "k = nat (n - int (Suc i0))" using Suc.hyps(2) by simp
  have rest: "\<forall>i. Suc i0 \<le> i \<and> int i < n \<longrightarrow>
             (\<exists>x. inputSequence nsrc sources lookback i = Inr x \<and> PX x)
             \<and> (\<exists>y. targetSequence nsrc target lookback forecast i = Inr y \<and> PY y)"
    using Suc.prems by simp
  obtain X Y where XY: "samples_loop nsrc sources target lookback forecast (Some n) (Suc i0)
                          (X0 @ [x]) (Y0 @ [y]) = Some (Inr ((X0 @ [x]) @ X, (Y0 @ [y]) @ Y))"
    "length X = nat (n - int (Suc i0))" "length Y = nat (n - int (Suc i0))"
    "\<forall>x\<in>set X. PX x" "\<forall>y\<in>set Y. PY y"
    using Suc.hyps(1)[OF k rest, of "X0 @ [x]" "Y0 @ [y]"] by blast
  have "samples_loop nsrc sources target lookback forecast (Some n) i0 X0 Y0
          = Some (Inr (X0 @ (x # X), Y0 @ (y # Y)))"
    using samples_loop_step[OF b x(1) y(1)] XY(1) by simp
  moreover have "length (x # X) = nat (n - int i0)" "length (y # Y) = nat (n - int i0)"
    using XY(2,3) Suc.hyps(2) by simp_all
  moreover have "\<forall>x\<in>set (x # X). PX x" "\<forall>y\<in>set (y # Y). PY y"
    using XY(4,5) x(2) y(2) by simp_all
  ultimately show ?case by blast
qed

text \<open>The state in which the loop over the samples starts.\<close>

lemma prepareTrainingData_unfold:
  "prepareTrainingData dp msd target lookback forecast =
     (case samples_loop (fst (normalize_all (minLength_of (map length (map snd msd))) msd Map.empty (normalizers dp)))
             (map fst msd) target lookback forecast
             (map_option (\<lambda>m. int m - lookback - forecast) (minLength_of (map length (map snd msd))))
             0 [] [] of
        None \<Rightarrow> None
      | Some (Inl e) \<Rightarrow> Some (Inl e)
      | Some (Inr (X, Y)) \<Rightarrow>
          Some (Inr \<lparr>X_r = X, Y_r = Y, sources_r = map fst msd,
                     featureCount_r = length (map fst msd) * 5,
                     normalizers_r = snd (normalize_all (minLength_of (map length (map snd msd))) msd
                                            Map.empty (normalizers dp))\<rparr>))"
  by (simp only: prepareTrainingData_def Let_def split_beta)

lemma prepareTrainingData_windows:
  assumes ml: "minLength_of (map length (map snd msd)) = Some minLength"
    and tg: "target \<in> fst ` set msd"
    and lb: "0 \<le> lookback" and fc: "0 \<le> forecast"
    and en: "lookback + forecast \<le> int minLength"
  shows "\<exists>res. prepareTrainingData dp msd target lookback forecast = Some (Inr res)
           \<and> length (X_r res) = nat (int minLength - lookback - forecast)
           \<and> length (Y_r res) = nat (int minLength - lookback - forecast)
           \<and> (\<forall>x\<in>set (X_r res). length x = nat lookback
                  \<and> (\<forall>row\<in>set x. length row = length msd * 5))
           \<and> (\<forall>y\<in>set (Y_r res). length y = nat forecast \<and> (\<forall>row\<in>set y. length row = 4))
           \<and> sources_r res = map fst msd \<and> featureCount_r res = length msd * 5"
proof -
  let ?nsrc = "fst (normalize_all (Some minLength) msd Map.empty (normalizers dp))"
  let ?n = "int minLength - lookback - forecast"
  let ?PX = "\<lambda>x. length x = nat lookback \<and> (\<forall>row\<in>set x. length row = length msd * 5)"
  let ?PY = "\<lambda>y. length y = nat forecast \<and> (\<forall>row\<in>set y. length row = (4::nat))"
  have le: "\<forall>(symbol, series)\<in>set msd. minLength \<le> length series"
    using ml by (rule minLength_of_le)
  have rows: "\<forall>s\<in>{} \<union> fst ` set msd. \<exists>rows. ?nsrc s = Some rows \<and> rows_ok minLength rows"
    using le by (rule normalize_all_rows) simp
  then have src: "\<forall>s\<in>set (map fst msd). \<exists>rows. ?nsrc s = Some rows \<and> rows_ok minLength rows"
    by simp
  obtain trows where trows: "?nsrc target = Some trows" "rows_ok minLength trows"
    using rows tg by auto
  have body: "\<forall>i. 0 \<le> i \<and> int i < ?n \<longrightarrow>
     (\<exists>x. inputSequence ?nsrc (map fst msd) lookback i = Inr x \<and> ?PX x)
     \<and> (\<exists>y. targetSequence ?nsrc target lookback forecast i = Inr y \<and> ?PY y)"
  proof (intro allI impI)
    fix i assume i: "0 \<le> i \<and> int i < ?n"
    have "int i + lookback \<le> int minLength" using i fc by linarith
    from inputSequence_ok[OF src this]
    have 1: "\<exists>x. inputSequence ?nsrc (map fst msd) lookback i = Inr x \<and> ?PX x"
      by (auto simp: mult.commute)
    have "int i + lookback + forecast \<le> int minLength" using i by linarith
    with trows lb
    have 2: "\<exists>y. targetSequence ?nsrc target lookback forecast i = Inr y \<and> ?PY y"
      by (rule targetSequence_ok)
    show "(\<exists>x. inputSequence ?nsrc (map fst msd) lookback i = Inr x \<and> ?PX x)
     \<and> (\<exists>y. targetSequence ?nsrc target lookback forecast i = Inr y \<and> ?PY y)"
      using 1 2 by blast
  qed
  obtain X Y where XY: "samples_loop ?nsrc (map fst msd) target lookback forecast (Some ?n) 0 [] []
        = Some (Inr ([] @ X, [] @ Y))"
    "length X = nat (?n - int 0)" "length Y = nat (?n - int 0)"
    "\<forall>x\<in>set X. ?PX x" "\<forall>y\<in>set Y. ?PY y"
    using samples_loop_total[of 0 ?n ?nsrc "map fst msd" lookback ?PX target forecast ?PY "[]" "[]"] body
    by blast
  show ?thesis
    unfolding prepareTrainingData_unfold ml using XY by simp
qed

lemma prepareTrainingData_short:
  assumes ml: "minLength_of (map length (map snd msd)) = Some minLength"
    and sh: "int minLength - lookback - forecast \<le> 0"
  shows "prepareTrainingData dp msd target lookback forecast
     = Some (Inr \<lparr>X_r = [], Y_r = [], sources_r = map fst msd,
                 featureCount_r = length (map fst msd) * 5,
                 normalizers_r = snd (normalize_all (Some minLength) msd Map.empty (normalizers dp))\<rparr>)"
proof -
  have "\<not> below_total 0 (Some (int minLength - lookback - forecast))" using sh by simp
  then have "samples_loop (fst (normalize_all (Some minLength) msd Map.empty (normalizers dp)))
      (map fst msd) target lookback forecast (Some (int minLength - lookback - forecast)) 0 [] []
      = Some (Inr ([], []))"
    by (rule samples_loop_done)
  then show ?thesis
    unfolding prepareTrainingData_unfold ml by simp
qed

lemma prepareTrainingData_no_target:
  assumes ml: "minLength_of (map length (map snd msd)) = Some minLength"
    and tg: "target \<notin> fst ` set msd"
    and en: "0 < int minLength - lookback - forecast" and fc: "1 \<le> forecast"
  shows "prepareTrainingData dp msd target lookback forecast = Some (Inl TypeError)"
proof -
  let ?nsrc = "fst (normalize_all (Some minLength) msd Map.empty (normalizers dp))"
  let ?n = "int minLength - lookback - forecast"
  have b: "below_total 0 (Some ?n)" using en by simp
  have "?nsrc target = Map.empty target" using tg by (rule normalize_all_other)
  then have "?nsrc target = None" by simp
  then have t: "targetSequence ?nsrc target lookback forecast 0 = Inl TypeError"
    using fc by (rule targetSequence_absent)
  have "samples_loop ?nsrc (map fst msd) target lookback forecast (Some ?n) 0 [] []
      = Some (Inl TypeError)"
  proof (cases "inputSequence ?nsrc (map fst msd) lookback 0")
    case (Inl e)
    then have "e = TypeError" by (rule inputSequence_error)
    then show ?thesis using samples_loop_input_error[OF b Inl] by simp
  next
    case (Inr x)
    show ?thesis using b Inr t by (rule samples_loop_target_error)
  qed
  then show ?thesis
    unfolding prepareTrainingData_unfold ml by simp
qed

lemma prepareTrainingDataFromCSV_no_target:
  "csvData dp (toUpperCase target) = None \<Longrightarrow>
   prepareTrainingDataFromCSV toUpperCase dp target related lookback forecast
     = Some (Inl (TargetDataNotFound target))"
  by (simp add: prepareTrainingDataFromCSV_def)


text \<open>
  C2. When the shortest series has \<open>minLength\<close> candles, the target is one of the sources,
  \<open>lookback\<close> and \<open>forecast\<close> are not negative and \<open>lookback + forecast\<close> is at most
  \<open>minLength\<close>, \<open>prepareTrainingData\<close> returns exactly \<open>minLength - lookback - forecast\<close>
  samples; every \<open>X[i]\<close> has \<open>lookback\<close> rows of \<open>numSources * 5\<close> numbers and every
  \<open>Y[i]\<close> has \<open>forecast\<close> rows of \<open>4\<close> numbers. In particular, three sources of 200
  candles with \<open>lookback = 30\<close> and \<open>forecast = 5\<close> give 165 samples, of shapes \<open>[30, 15]\<close>
  and \<open>[5, 4]\<close>.
\<close>

theorem prepareTrainingData_window_count:
  assumes "minLength_of (map length (map snd multiSourceData)) = Some minLength"
    and "targetSymbol \<in> fst ` set multiSourceData"
    and "0 \<le> lookback" and "0 \<le> forecast"
    and "lookback + forecast \<le> int minLength"
  shows "\<exists>res. prepareTrainingData dp multiSourceData targetSymbol lookback forecast = Some (Inr res)
           \<and> length (X_r res) = nat (int minLength - lookback - forecast)
           \<and> length (Y_r res) = nat (int minLength - lookback - forecast)
           \<and> (\<forall>x\<in>set (X_r res). length x = nat lookback
                  \<and> (\<forall>row\<in>set x. length row = length multiSourceData * 5))
           \<and> (\<forall>y\<in>set (Y_r res). length y = nat forecast \<and> (\<forall>row\<in>set y. length row = 4))
           \<and> sources_r res = map fst multiSourceData
           \<and> featureCount_r res = length multiSourceData * 5"
  using assms by (rule prepareTrainingData_windows)

theorem prepareTrainingData_window_count_witness:
  "minLength_of (map length (map snd (three_sources 200))) = Some 200
   \<and> ''SPY'' \<in> fst ` set (three_sources 200)
   \<and> (\<exists>res. prepareTrainingData new_DataProcessor (three_sources 200) ''SPY'' 30 5 = Some (Inr res)
          \<and> length (X_r res) = 165 \<and> length (Y_r res) = 165
          \<and> (\<forall>x\<in>set (X_r res). length x = 30 \<and> (\<forall>row\<in>set x. length row = 15))
          \<and> (\<forall>y\<in>set (Y_r res). length y = 5 \<and> (\<forall>row\<in>set y. length row = 4))
          \<and> sources_r res = [''SPY'', ''VIX'', ''TLT''] \<and> featureCount_r res = 15)"
proof -
  have h1: "minLength_of (map length (map snd (three_sources 200))) = Some 200"
    by (simp add: three_sources_def)
  have h2: "''SPY'' \<in> fst ` set (three_sources 200)"
    by (simp add: three_sources_def)
  show ?thesis
    using prepareTrainingData_window_count[OF h1 h2, of 30 5 new_DataProcessor] h1 h2
    by (simp add: three_sources_def)
qed

text \<open>
  C3, as the code has it. \<open>prepareTrainingData\<close> has no check of the length: when
  \<open>minLength - lookback - forecast\<close> is not positive, the loop over the samples does not run,
  and the call returns a result without any sample.
\<close>

theorem prepareTrainingData_insufficient:
  assumes "minLength_of (map length (map snd multiSourceData)) = Some minLength"
    and "int minLength - lookback - forecast \<le> 0"
  shows "\<exists>res. prepareTrainingData dp multiSourceData targetSymbol lookback forecast = Some (Inr res)
           \<and> X_r res = [] \<and> Y_r res = []
           \<and> sources_r res = map fst multiSourceData
           \<and> featureCount_r res = length multiSourceData * 5"
  using prepareTrainingData_short[OF assms] by simp

theorem prepareTrainingData_insufficient_witness:
  "minLength_of (map length (map snd (three_sources 10))) = Some 10
   \<and> int 10 - 30 - 5 \<le> 0
   \<and> (\<exists>res. prepareTrainingData new_DataProcessor (three_sources 10) ''SPY'' 30 5 = Some (Inr res)
          \<and> X_r res = [] \<and> Y_r res = []
          \<and> sources_r res = [''SPY'', ''VIX'', ''TLT''] \<and> featureCount_r res = 15)"
proof -
  have h1: "minLength_of (map length (map snd (three_sources 10))) = Some 10"
    by (simp add: three_sources_def)
  have h2: "int 10 - 30 - 5 \<le> 0" by simp
  show ?thesis
    using prepareTrainingData_insufficient[OF h1 h2, of new_DataProcessor "''SPY''"] h1
    by (simp add: three_sources_def)
qed

text \<open>
  C3 as stated fails on its own example: with three sources of 10 candles, \<open>lookback = 30\<close> and
  \<open>forecast = 5\<close>, nothing is thrown and the call returns empty \<open>X\<close> and \<open>Y\<close>.
\<close>

theorem prepareTrainingData_insufficient_counterexample:
  "thrown (prepareTrainingData new_DataProcessor (three_sources 10) ''SPY'' 30 5) = None
   \<and> map_option X_r (returned (prepareTrainingData new_DataProcessor (three_sources 10) ''SPY'' 30 5))
       = Some []
   \<and> map_option Y_r (returned (prepareTrainingData new_DataProcessor (three_sources 10) ''SPY'' 30 5))
       = Some []"
proof -
  have h1: "minLength_of (map length (map snd (three_sources 10))) = Some 10"
    by (simp add: three_sources_def)
  have h2: "int 10 - 30 - 5 \<le> 0" by simp
  show ?thesis
    unfolding prepareTrainingData_short[OF h1 h2] by (simp add: thrown_def returned_def)
qed

text \<open>
  C4, as the code has it. \<open>prepareTrainingDataFromCSV\<close> throws an error that names the
  target when the uploaded data have no series for it. \<open>prepareTrainingData\<close> itself does not
  check the target: when the target is not a key of the input, it throws a TypeError (reading
  a property of \<open>undefined\<close>) if at least one sample is due and \<open>forecast\<close> is at least \<open>1\<close>,
  and it returns a result without any sample if none is due.
\<close>

theorem prepareTrainingData_missing_target:
  "(csvData dp (toUpperCase targetSymbol) = None \<longrightarrow>
      prepareTrainingDataFromCSV toUpperCase dp targetSymbol relatedSymbols lookback forecast
        = Some (Inl (TargetDataNotFound targetSymbol)))
   \<and> (minLength_of (map length (map snd multiSourceData)) = Some minLength
        \<and> targetSymbol \<notin> fst ` set multiSourceData \<longrightarrow>
      (0 < int minLength - lookback - forecast \<and> 1 \<le> forecast \<longrightarrow>
         prepareTrainingData dp multiSourceData targetSymbol lookback forecast = Some (Inl TypeError))
      \<and> (int minLength - lookback - forecast \<le> 0 \<longrightarrow>
         (\<exists>res. prepareTrainingData dp multiSourceData targetSymbol lookback forecast = Some (Inr res)
            \<and> X_r res = [] \<and> Y_r res = [])))"
  using prepareTrainingDataFromCSV_no_target[of dp toUpperCase targetSymbol relatedSymbols lookback forecast]
    prepareTrainingData_no_target[of multiSourceData minLength targetSymbol lookback forecast dp]
    prepareTrainingData_short[of multiSourceData minLength lookback forecast dp targetSymbol]
  by simp

theorem prepareTrainingData_missing_target_witness:
  "csvData new_DataProcessor (map id ''QQQ'') = None
   \<and> prepareTrainingDataFromCSV (map id) new_DataProcessor ''QQQ'' [''VIX''] 30 5
       = Some (Inl (TargetDataNotFound ''QQQ''))
   \<and> minLength_of (map length (map snd (three_sources 200))) = Some 200
   \<and> ''QQQ'' \<notin> fst ` set (three_sources 200)
   \<and> 0 < int 200 - 30 - 5 \<and> (1::int) \<le> 5
   \<and> prepareTrainingData new_DataProcessor (three_sources 200) ''QQQ'' 30 5 = Some (Inl TypeError)
   \<and> minLength_of (map length (map snd (three_sources 10))) = Some 10
   \<and> ''QQQ'' \<notin> fst ` set (three_sources 10)
   \<and> int 10 - 30 - 5 \<le> 0
   \<and> (\<exists>res. prepareTrainingData new_DataProcessor (three_sources 10) ''QQQ'' 30 5 = Some (Inr res)
          \<and> X_r res = [] \<and> Y_r res = [])"
  using prepareTrainingData_missing_target[of new_DataProcessor "map id" "''QQQ''" "[''VIX'']" 30 5
      "three_sources 200" 200]
    prepareTrainingData_missing_target[of new_DataProcessor "map id" "''QQQ''" "[''VIX'']" 30 5
      "three_sources 10" 10]
  by (simp add: three_sources_def new_DataProcessor_def)

text \<open>
  C4 as stated fails for \<open>prepareTrainingData\<close>: with three sources of 10 candles and the
  target \<open>QQQ\<close>, which is none of them, \<open>lookback = 30\<close> and \<open>forecast = 5\<close>, nothing is thrown
  and the call returns; with 200 candles the exception is a TypeError, which does not name the
  target.
\<close>

theorem prepareTrainingData_missing_target_counterexample:
  "thrown (prepareTrainingData new_DataProcessor (three_sources 10) ''QQQ'' 30 5) = None
   \<and> map_option X_r (returned (prepareTrainingData new_DataProcessor (three_sources 10) ''QQQ'' 30 5))
       = Some []
   \<and> thrown (prepareTrainingData new_DataProcessor (three_sources 200) ''QQQ'' 30 5) = Some TypeError"
proof -
  have h1: "minLength_of (map length (map snd (three_sources 10))) = Some 10"
    by (simp add: three_sources_def)
  have h2: "int 10 - 30 - 5 \<le> 0" by simp
  have g1: "minLength_of (map length (map snd (three_sources 200))) = Some 200"
    by (simp add: three_sources_def)
  have g2: "''QQQ'' \<notin> fst ` set (three_sources 200)"
    by (simp add: three_sources_def)
  have g3: "0 < int 200 - 30 - 5" "(1::int) \<le> 5" by simp_all
  show ?thesis
    unfolding prepareTrainingData_short[OF h1 h2] prepareTrainingData_no_target[OF g1 g2 g3]
    by (simp add: thrown_def returned_def)
qed


section \<open>Training windows: stored parameters and normalized values\<close>

lemma string_of_nat_digit: "d < 10 \<Longrightarrow> string_of_nat d = [digit d]"
  by simp















































section \<open>Life cycle of the model\<close>

text \<open>
  C6, as the code has it. \<open>predict\<close> and \<open>batchPredict\<close> throw
  \<open>Error('Model not trained')\<close> in every state but \<open>Trained\<close>; in the state \<open>Trained\<close> they
  return what the network predicts (\<open>predict\<close> the first output of the batch of its one
  input). \<open>train\<close> is accepted in every state: without a model it builds one first and keeps
  the model it has otherwise. A run of \<open>fit\<close> that completes returns the training history,
  which is the history before the call followed by the logs of the run, and leaves the model
  \<open>Trained\<close>. A run that throws before \<open>onTrainEnd\<close> makes \<open>train\<close> throw, with the logs
  pushed and \<open>trained\<close> as it was; a run that throws after \<open>onTrainEnd\<close> makes \<open>train\<close> throw
  with the model \<open>Trained\<close>.
\<close>

theorem lifecycle_predict_train:
  "(lifecycle_of m \<noteq> Trained \<longrightarrow>
      predict tf_predict input_sequence m = Inl ModelNotTrained
      \<and> batchPredict tf_predict inputSequences m = Inl ModelNotTrained)
   \<and> (lifecycle_of m = Trained \<longrightarrow>
      (\<exists>tfm. model m = Some tfm
         \<and> batchPredict tf_predict inputSequences m = tf_predict tfm inputSequences
         \<and> predict tf_predict input_sequence m
             = (case tf_predict tfm [input_sequence] of
                  Inl e \<Rightarrow> Inl e
                | Inr prediction \<Rightarrow> Inr (if prediction = [] then None else Some (hd prediction)))))
   \<and> train tfm (Completed logs) m
       = (Inr (trainingHistory m @ logs),
          m\<lparr>model := (if lifecycle_of m = Unbuilt then Some tfm else model m),
            trainingHistory := trainingHistory m @ logs, trained := True\<rparr>)
   \<and> lifecycle_of (snd (train tfm (Completed logs) m)) = Trained
   \<and> train tfm (Failed logs) m
       = (Inl FitFailure,
          m\<lparr>model := (if lifecycle_of m = Unbuilt then Some tfm else model m),
            trainingHistory := trainingHistory m @ logs\<rparr>)
   \<and> train tfm (FailedAtEnd logs) m
       = (Inl FitFailure,
          m\<lparr>model := (if lifecycle_of m = Unbuilt then Some tfm else model m),
            trainingHistory := trainingHistory m @ logs, trained := True\<rparr>)
   \<and> lifecycle_of (snd (train tfm (FailedAtEnd logs) m)) = Trained"
  by (auto simp: lifecycle_of_def predict_def batchPredict_def train_def build_def Let_def
      split: option.splits if_splits sum.splits list.splits)

theorem lifecycle_predict_train_witness:
  "lifecycle_of (constructor :: nat SSMAttentionModel) \<noteq> Trained
   \<and> lifecycle_of (constructor :: nat SSMAttentionModel) = Unbuilt
   \<and> predict (\<lambda>tfm xs. Inr xs) [[Num 1]] (constructor :: nat SSMAttentionModel) = Inl ModelNotTrained
   \<and> batchPredict (\<lambda>tfm xs. Inr xs) [[[Num 1]]] (constructor :: nat SSMAttentionModel)
       = Inl ModelNotTrained
   \<and> lifecycle_of (build (7::nat) constructor) = Built
   \<and> predict (\<lambda>tfm xs. Inr xs) [[Num 1]] (build (7::nat) constructor) = Inl ModelNotTrained
   \<and> batchPredict (\<lambda>tfm xs. Inr xs) [[[Num 1]]] (build (7::nat) constructor) = Inl ModelNotTrained
   \<and> train (8::nat) (Completed [\<lparr>epoch_l = 0, loss_l = Num 2, valLoss_l = Num 2, mse_l = Num 2\<rparr>])
        (build 7 constructor)
       = (Inr [\<lparr>epoch_l = 0, loss_l = Num 2, valLoss_l = Num 2, mse_l = Num 2\<rparr>],
          \<lparr>model = Some 7, trained = True,
           trainingHistory = [\<lparr>epoch_l = 0, loss_l = Num 2, valLoss_l = Num 2, mse_l = Num 2\<rparr>]\<rparr>)
   \<and> fst (train (8::nat) (Completed [\<lparr>epoch_l = 0, loss_l = Num 1, valLoss_l = Num 1, mse_l = Num 1\<rparr>])
        \<lparr>model = Some 7, trained = True,
         trainingHistory = [\<lparr>epoch_l = 0, loss_l = Num 2, valLoss_l = Num 2, mse_l = Num 2\<rparr>]\<rparr>)
       = Inr [\<lparr>epoch_l = 0, loss_l = Num 2, valLoss_l = Num 2, mse_l = Num 2\<rparr>,
              \<lparr>epoch_l = 0, loss_l = Num 1, valLoss_l = Num 1, mse_l = Num 1\<rparr>]
   \<and> lifecycle_of \<lparr>model = Some (7::nat), trained = True,
         trainingHistory = [\<lparr>epoch_l = 0, loss_l = Num 2, valLoss_l = Num 2, mse_l = Num 2\<rparr>]\<rparr> = Trained
   \<and> batchPredict (\<lambda>tfm xs. Inr xs) [[[Num 1]]]
        \<lparr>model = Some (7::nat), trained = True,
         trainingHistory = [\<lparr>epoch_l = 0, loss_l = Num 2, valLoss_l = Num 2, mse_l = Num 2\<rparr>]\<rparr>
       = Inr [[[Num 1]]]
   \<and> predict (\<lambda>tfm xs. Inr xs) [[Num 1]]
        \<lparr>model = Some (7::nat), trained = True,
         trainingHistory = [\<lparr>epoch_l = 0, loss_l = Num 2, valLoss_l = Num 2, mse_l = Num 2\<rparr>]\<rparr>
       = Inr (Some [[Num 1]])
   \<and> train (8::nat) (Failed [\<lparr>epoch_l = 0, loss_l = Num 2, valLoss_l = Num 2, mse_l = Num 2\<rparr>])
        (build 7 constructor)
       = (Inl FitFailure,
          \<lparr>model = Some 7, trained = False,
           trainingHistory = [\<lparr>epoch_l = 0, loss_l = Num 2, valLoss_l = Num 2, mse_l = Num 2\<rparr>]\<rparr>)
   \<and> train (8::nat) (FailedAtEnd []) (build 7 constructor)
       = (Inl FitFailure, \<lparr>model = Some 7, trained = True, trainingHistory = []\<rparr>)"
  using lifecycle_predict_train[of "constructor :: nat SSMAttentionModel" "\<lambda>tfm xs. Inr xs"
      "[[Num 1]]" "[[[Num 1]]]" 8 "[]"]
    lifecycle_predict_train[of "build (7::nat) constructor" "\<lambda>tfm xs. Inr xs" "[[Num 1]]" "[[[Num 1]]]" 8
      "[\<lparr>epoch_l = 0, loss_l = Num 2, valLoss_l = Num 2, mse_l = Num 2\<rparr>]"]
    lifecycle_predict_train[of "build (7::nat) constructor" "\<lambda>tfm xs. Inr xs" "[[Num 1]]" "[[[Num 1]]]" 8
      "[]"]
    lifecycle_predict_train[of "\<lparr>model = Some (7::nat), trained = True,
         trainingHistory = [\<lparr>epoch_l = 0, loss_l = Num 2, valLoss_l = Num 2, mse_l = Num 2\<rparr>]\<rparr>"
      "\<lambda>tfm xs. Inr xs" "[[Num 1]]" "[[[Num 1]]]" 8
      "[\<lparr>epoch_l = 0, loss_l = Num 1, valLoss_l = Num 1, mse_l = Num 1\<rparr>]"]
  by (simp add: lifecycle_of_def constructor_def build_def)

text \<open>
  C6 as stated fails where it has \<open>train\<close> rejected on a model that was never built: on the
  model that the constructor returns, \<open>train\<close> with a run of \<open>fit\<close> that completes returns the
  history and leaves the model \<open>Trained\<close>.
\<close>

theorem lifecycle_train_unbuilt_counterexample:
  "lifecycle_of (constructor :: unit SSMAttentionModel) = Unbuilt
   \<and> fst (train () (Completed [\<lparr>epoch_l = 0, loss_l = Num (1 / 4), valLoss_l = Num (1 / 4),
                                   mse_l = Num (1 / 4)\<rparr>]) constructor)
       = Inr [\<lparr>epoch_l = 0, loss_l = Num (1 / 4), valLoss_l = Num (1 / 4), mse_l = Num (1 / 4)\<rparr>]
   \<and> lifecycle_of (snd (train () (Completed [\<lparr>epoch_l = 0, loss_l = Num (1 / 4),
                                   valLoss_l = Num (1 / 4), mse_l = Num (1 / 4)\<rparr>]) constructor))
       = Trained"
  by (simp add: lifecycle_of_def constructor_def build_def train_def)


section \<open>Direction accuracy\<close>

























end
